theory Spec2Isabelle
  imports Complex_Main
begin

section \<open>Data model\<close>

text \<open>
  The fields of \<^verbatim>\<open>AirthingsApiDeviceSample.data\<close> that \<^verbatim>\<open>plugin.ts\<close> reads. Every field
  is optional; \<open>None\<close> stands for both \<^verbatim>\<open>undefined\<close> and \<^verbatim>\<open>null\<close>, which the source never
  tells apart (it tests with \<^verbatim>\<open>!= undefined\<close>, \<^verbatim>\<open>!= null\<close>, \<^verbatim>\<open>== null\<close> and \<^verbatim>\<open>??\<close> only).
  A present reading is a finite number, taken here as an exact rational.
\<close>

record SampleData =
  battery :: "rat option"
  co2 :: "rat option"
  humidity :: "rat option"
  mold :: "rat option"
  pm25 :: "rat option"
  pressure :: "rat option"
  radonShortTermAvg :: "rat option"
  temp :: "rat option"
  time :: "rat option"
  voc :: "rat option"

record AirthingsApiDeviceSample =
  data :: SampleData

text \<open>The initial value of the field \<^verbatim>\<open>latestSamples\<close>: \<^verbatim>\<open>{ data: {} }\<close>.\<close>

definition emptyData :: SampleData where
  "emptyData = \<lparr> battery = None, co2 = None, humidity = None, mold = None, pm25 = None,
     pressure = None, radonShortTermAvg = None, temp = None, time = None, voc = None \<rparr>"

section \<open>Air quality\<close>

text \<open>
  The numeric codes of \<^verbatim>\<open>api.hap.Characteristic.AirQuality\<close>. They are constants of the
  host library (HAP), on which the source calls \<^verbatim>\<open>Math.max\<close>.
\<close>

definition UNKNOWN :: nat where "UNKNOWN = 0"
definition EXCELLENT :: nat where "EXCELLENT = 1"
definition GOOD :: nat where "GOOD = 2"
definition FAIR :: nat where "FAIR = 3"
definition INFERIOR :: nat where "INFERIOR = 4"
definition POOR :: nat where "POOR = 5"

text \<open>The body of the \<^verbatim>\<open>AirQuality\<close> getter after the refresh, statement by statement.\<close>

definition airQuality :: "SampleData \<Rightarrow> nat" where
  "airQuality d =
    (let aq = UNKNOWN;
         aq = (case humidity d of None \<Rightarrow> aq
               | Some h \<Rightarrow>
                   if h < 25 \<or> h \<ge> 70 then POOR
                   else if h < 30 \<or> h \<ge> 60 then FAIR
                   else EXCELLENT);
         aq = (case co2 d of None \<Rightarrow> aq
               | Some c \<Rightarrow>
                   if c \<ge> 1000 then max aq POOR
                   else if c \<ge> 800 then max aq FAIR
                   else max aq EXCELLENT);
         aq = (case mold d of None \<Rightarrow> aq
               | Some m \<Rightarrow>
                   if m \<ge> 5 then max aq POOR
                   else if m \<ge> 3 then max aq FAIR
                   else max aq EXCELLENT);
         aq = (case pm25 d of None \<Rightarrow> aq
               | Some q \<Rightarrow>
                   if q \<ge> 25 then max aq POOR
                   else if q \<ge> 10 then max aq FAIR
                   else max aq EXCELLENT);
         aq = (case radonShortTermAvg d of None \<Rightarrow> aq
               | Some r \<Rightarrow>
                   if r \<ge> 150 then max aq POOR
                   else if r \<ge> 100 then max aq FAIR
                   else max aq EXCELLENT);
         aq = (case voc d of None \<Rightarrow> aq
               | Some v \<Rightarrow>
                   if v \<ge> 2000 then max aq POOR
                   else if v \<ge> 250 then max aq FAIR
                   else max aq EXCELLENT)
     in aq)"

subsection \<open>The classification as the specification words it\<close>

text \<open>
  The six factors that contribute to the rating, the field each one reads, and the level
  each threshold table gives to a present value. These follow the specification's table;
  \<open>airQuality\<close> above follows the source.
\<close>

datatype factor = Humidity | Co2 | Mold | Pm25 | RadonShortTermAvg | Voc

fun reading :: "factor \<Rightarrow> SampleData \<Rightarrow> rat option" where
  "reading Humidity d = humidity d"
| "reading Co2 d = co2 d"
| "reading Mold d = mold d"
| "reading Pm25 d = pm25 d"
| "reading RadonShortTermAvg d = radonShortTermAvg d"
| "reading Voc d = voc d"

definition table :: "rat \<Rightarrow> rat \<Rightarrow> rat \<Rightarrow> nat" where
  "table poor fair v = (if v \<ge> poor then POOR else if v \<ge> fair then FAIR else EXCELLENT)"

fun factorLevel :: "factor \<Rightarrow> rat \<Rightarrow> nat" where
  "factorLevel Humidity v =
     (if v < 25 \<or> v \<ge> 70 then POOR else if v < 30 \<or> v \<ge> 60 then FAIR else EXCELLENT)"
| "factorLevel Co2 v = table 1000 800 v"
| "factorLevel Mold v = table 5 3 v"
| "factorLevel Pm25 v = table 25 10 v"
| "factorLevel RadonShortTermAvg v = table 150 100 v"
| "factorLevel Voc v = table 2000 250 v"

definition allFactors :: "factor list" where
  "allFactors = [Humidity, Co2, Mold, Pm25, RadonShortTermAvg, Voc]"

definition presentLevels :: "factor list \<Rightarrow> SampleData \<Rightarrow> nat list" where
  "presentLevels fs d = List.map_filter (\<lambda>f. map_option (factorLevel f) (reading f d)) fs"

definition classify :: "SampleData \<Rightarrow> nat" where
  "classify d = (if presentLevels allFactors d = [] then UNKNOWN else Max (set (presentLevels allFactors d)))"

definition evalFactor :: "SampleData \<Rightarrow> factor \<Rightarrow> nat \<Rightarrow> nat" where
  "evalFactor d f aq = (case reading f d of None \<Rightarrow> aq | Some v \<Rightarrow> max aq (factorLevel f v))"

text \<open>Replacing the reading of one factor, used to state monotonicity.\<close>

fun withReading :: "factor \<Rightarrow> rat option \<Rightarrow> SampleData \<Rightarrow> SampleData" where
  "withReading Humidity x d = d\<lparr>humidity := x\<rparr>"
| "withReading Co2 x d = d\<lparr>co2 := x\<rparr>"
| "withReading Mold x d = d\<lparr>mold := x\<rparr>"
| "withReading Pm25 x d = d\<lparr>pm25 := x\<rparr>"
| "withReading RadonShortTermAvg x d = d\<lparr>radonShortTermAvg := x\<rparr>"
| "withReading Voc x d = d\<lparr>voc := x\<rparr>"

definition levelOrFloor :: "factor \<Rightarrow> SampleData \<Rightarrow> nat" where
  "levelOrFloor f d = (case reading f d of None \<Rightarrow> UNKNOWN | Some v \<Rightarrow> factorLevel f v)"

section \<open>The other characteristic getters\<close>

text \<open>
  Each definition is the expression a getter returns once \<^verbatim>\<open>getLatestSamples\<close> has
  resolved, as a function of \<^verbatim>\<open>this.latestSamples.data\<close> (and of \<^verbatim>\<open>Date.now()\<close>, in
  milliseconds, for the status getters).
\<close>

datatype StatusLowBattery = BATTERY_LEVEL_NORMAL | BATTERY_LEVEL_LOW

datatype CarbonDioxideDetected = CO2_LEVELS_NORMAL | CO2_LEVELS_ABNORMAL

definition batteryLevel :: "SampleData \<Rightarrow> rat" where
  "batteryLevel d = (case battery d of None \<Rightarrow> 100 | Some b \<Rightarrow> b)"

definition statusLowBattery :: "SampleData \<Rightarrow> StatusLowBattery" where
  "statusLowBattery d =
    (if (case battery d of None \<Rightarrow> True | Some b \<Rightarrow> b > 10)
     then BATTERY_LEVEL_NORMAL else BATTERY_LEVEL_LOW)"

definition moldValue :: "SampleData \<Rightarrow> rat" where
  "moldValue d = (case mold d of None \<Rightarrow> 0 | Some m \<Rightarrow> m)"

definition pm25Density :: "SampleData \<Rightarrow> rat" where
  "pm25Density d = (case pm25 d of None \<Rightarrow> 0 | Some q \<Rightarrow> q)"

definition radonShortTerm :: "SampleData \<Rightarrow> rat" where
  "radonShortTerm d = (case radonShortTermAvg d of None \<Rightarrow> 0 | Some r \<Rightarrow> r)"

text \<open>
  JavaScript arithmetic does not fail on a zero divisor: it goes on with \<^verbatim>\<open>Infinity\<close>,
  \<^verbatim>\<open>-Infinity\<close>, \<^verbatim>\<open>NaN\<close> and the negative zero. \<open>jsnum\<close> is a JavaScript number: a
  finite value (\<open>Num 0\<close> is the positive zero) or one of the four special values. The
  operations follow IEEE 754 on the special values and the signs of zeros, and are exact
  on finite values: rounding to double precision is not modelled.
\<close>

datatype jsnum = Num rat | NegZero | PInf | NInf | NaN

definition negative :: "jsnum \<Rightarrow> bool" where
  "negative x = (case x of Num r \<Rightarrow> r < 0 | NegZero \<Rightarrow> True | PInf \<Rightarrow> False
                 | NInf \<Rightarrow> True | NaN \<Rightarrow> False)"

definition isZero :: "jsnum \<Rightarrow> bool" where
  "isZero x = (x = Num 0 \<or> x = NegZero)"

definition isInfinite :: "jsnum \<Rightarrow> bool" where
  "isInfinite x = (x = PInf \<or> x = NInf)"

definition magnitude :: "jsnum \<Rightarrow> rat" where
  "magnitude x = (case x of Num r \<Rightarrow> r | _ \<Rightarrow> 0)"

definition signedZero :: "bool \<Rightarrow> jsnum" where
  "signedZero neg = (if neg then NegZero else Num 0)"

definition signedInfinity :: "bool \<Rightarrow> jsnum" where
  "signedInfinity neg = (if neg then NInf else PInf)"

text \<open>A finite result \<open>r\<close> whose sign, when it is zero, is given by \<open>neg\<close>.\<close>

definition finiteResult :: "bool \<Rightarrow> rat \<Rightarrow> jsnum" where
  "finiteResult neg r = (if r = 0 then signedZero neg else Num r)"

instantiation jsnum :: "{plus, times, inverse}"
begin

definition plus_jsnum :: "jsnum \<Rightarrow> jsnum \<Rightarrow> jsnum" where
  "plus_jsnum a b =
    (if a = NaN \<or> b = NaN then NaN
     else if isInfinite a \<and> isInfinite b then (if a = b then a else NaN)
     else if isInfinite a then a
     else if isInfinite b then b
     else finiteResult (negative a \<and> negative b) (magnitude a + magnitude b))"

definition times_jsnum :: "jsnum \<Rightarrow> jsnum \<Rightarrow> jsnum" where
  "times_jsnum a b =
    (if a = NaN \<or> b = NaN then NaN
     else if (isInfinite a \<and> isZero b) \<or> (isZero a \<and> isInfinite b) then NaN
     else if isInfinite a \<or> isInfinite b then signedInfinity (negative a \<noteq> negative b)
     else finiteResult (negative a \<noteq> negative b) (magnitude a * magnitude b))"

definition divide_jsnum :: "jsnum \<Rightarrow> jsnum \<Rightarrow> jsnum" where
  "divide_jsnum a b =
    (if a = NaN \<or> b = NaN then NaN
     else if (isInfinite a \<and> isInfinite b) \<or> (isZero a \<and> isZero b) then NaN
     else if isInfinite a then signedInfinity (negative a \<noteq> negative b)
     else if isInfinite b then signedZero (negative a \<noteq> negative b)
     else if isZero b then signedInfinity (negative a \<noteq> negative b)
     else finiteResult (negative a \<noteq> negative b) (magnitude a / magnitude b))"

definition inverse_jsnum :: "jsnum \<Rightarrow> jsnum" where
  "inverse_jsnum a = divide (Num 1) a"

instance ..

end

text \<open>The value of a finite number, either zero being 0; \<open>None\<close> for the others.\<close>

definition jsValue :: "jsnum \<Rightarrow> rat option" where
  "jsValue x = (case x of Num r \<Rightarrow> Some r | NegZero \<Rightarrow> Some 0 | _ \<Rightarrow> None)"

text \<open>
  The VOC density getter. A reading enters the arithmetic as the finite number it is.
\<close>

definition vocDensity :: "SampleData \<Rightarrow> jsnum" where
  "vocDensity d =
    (let t = (case temp d of None \<Rightarrow> 25 | Some x \<Rightarrow> x);
         p = (case pressure d of None \<Rightarrow> 1013 | Some x \<Rightarrow> x)
     in case voc d of
          Some v \<Rightarrow>
            Num v * (Num 78 / (Num 22.41 * ((Num t + Num 273) / Num 273) * (Num 1013 / Num p)))
        | None \<Rightarrow> Num 0)"

text \<open>\<^verbatim>\<open>Date.now() / 1000 - time < 2 * 60 * 60\<close>, false when \<^verbatim>\<open>time\<close> is absent.\<close>

definition recentEnough :: "int \<Rightarrow> SampleData \<Rightarrow> bool" where
  "recentEnough now d =
    (case time d of None \<Rightarrow> False | Some t \<Rightarrow> of_int now / 1000 - t < 2 * 60 * 60)"

definition airQualityStatusActive :: "int \<Rightarrow> SampleData \<Rightarrow> bool" where
  "airQualityStatusActive now d = recentEnough now d"

definition currentTemperature :: "SampleData \<Rightarrow> rat option" where
  "currentTemperature d = (case temp d of None \<Rightarrow> None | Some t \<Rightarrow> Some t)"

definition temperatureStatusActive :: "int \<Rightarrow> SampleData \<Rightarrow> bool" where
  "temperatureStatusActive now d = (temp d \<noteq> None \<and> recentEnough now d)"

definition currentRelativeHumidity :: "SampleData \<Rightarrow> rat" where
  "currentRelativeHumidity d = (case humidity d of None \<Rightarrow> 0 | Some h \<Rightarrow> h)"

definition humidityStatusActive :: "int \<Rightarrow> SampleData \<Rightarrow> bool" where
  "humidityStatusActive now d = (humidity d \<noteq> None \<and> recentEnough now d)"

definition carbonDioxideDetected :: "SampleData \<Rightarrow> CarbonDioxideDetected" where
  "carbonDioxideDetected d =
    (if (case co2 d of None \<Rightarrow> True | Some c \<Rightarrow> c < 1000)
     then CO2_LEVELS_NORMAL else CO2_LEVELS_ABNORMAL)"

definition carbonDioxideLevel :: "SampleData \<Rightarrow> rat" where
  "carbonDioxideLevel d = (case co2 d of None \<Rightarrow> 0 | Some c \<Rightarrow> c)"

definition carbonDioxideStatusActive :: "int \<Rightarrow> SampleData \<Rightarrow> bool" where
  "carbonDioxideStatusActive now d = (co2 d \<noteq> None \<and> recentEnough now d)"

definition airPressure :: "SampleData \<Rightarrow> rat" where
  "airPressure d = (case pressure d of None \<Rightarrow> 1012 | Some p \<Rightarrow> p)"

definition airPressureStatusActive :: "int \<Rightarrow> SampleData \<Rightarrow> bool" where
  "airPressureStatusActive now d = (pressure d \<noteq> None \<and> recentEnough now d)"

section \<open>The plugin and its sample cache\<close>

record AirthingsPluginConfig =
  clientId :: "string option"
  clientSecret :: "string option"
  serialNumber :: "string option"

text \<open>
  \<^verbatim>\<open>AirthingsDeviceInfo\<close> is declared in \<^verbatim>\<open>./device\<close>. Of it only the model name reaches the
  log; the sensor flags choose which services are registered and play no part in the cache.
\<close>

record AirthingsDeviceInfo =
  model :: string

text \<open>
  What a rejected promise carries: an \<^verbatim>\<open>Error\<close> with its message, or any other value
  (the \<^verbatim>\<open>catch\<close> block tests \<^verbatim>\<open>err instanceof Error\<close>).
\<close>

datatype thrown = Error string | NonError

text \<open>The calls the plugin makes on its collaborators: the logger and the remote API.\<close>

datatype event = Info string | InfoData SampleData | Err string | FetchCall string

text \<open>
  \<^verbatim>\<open>airthingsApi.getLatestSamples\<close>, given the serial number: it rejects (\<open>Inl\<close>) or
  resolves with a sample (\<open>Inr\<close>).
\<close>

type_synonym airthingsApi = "string \<Rightarrow> thrown + AirthingsApiDeviceSample"

record AirthingsPlugin =
  airthingsConfig :: AirthingsPluginConfig
  airthingsDevice :: AirthingsDeviceInfo
  latestSamples :: AirthingsApiDeviceSample
  latestSamplesTimestamp :: int

text \<open>How a template literal prints an optional string.\<close>

definition template :: "string option \<Rightarrow> string" where
  "template x = (case x of None \<Rightarrow> ''undefined'' | Some s \<Rightarrow> s)"

text \<open>
  The constructor, up to the registration of the services. \<^verbatim>\<open>AirthingsDevice.getDevice\<close>
  is a parameter. The result is the new object and what was logged.
\<close>

definition "constructor" ::
  "(string option \<Rightarrow> AirthingsDeviceInfo) \<Rightarrow> AirthingsPluginConfig \<Rightarrow> AirthingsPlugin \<times> event list" where
  "constructor getDevice config =
    (let log1 = (if clientId config = None
                 then [Err ''Missing required config value: clientId''] else []);
         log2 = (if clientSecret config = None
                 then [Err ''Missing required config value: clientSecret''] else []);
         (config, log3) =
           (if serialNumber config = None
            then (config\<lparr>serialNumber := Some ''0000000000''\<rparr>,
                  [Err ''Missing required config value: serialNumber''])
            else (config, []));
         device = getDevice (serialNumber config)
     in (\<lparr>airthingsConfig = config, airthingsDevice = device,
          latestSamples = \<lparr>data = emptyData\<rparr>, latestSamplesTimestamp = 0\<rparr>,
         log1 @ log2 @ log3 @
           [Info (''Device Model: '' @ model device),
            Info (''Serial Number: '' @ template (serialNumber config))]))"

text \<open>
  The \<^verbatim>\<open>try\<close> block of \<^verbatim>\<open>getLatestSamples\<close>, in two parts. \<open>resumeRefresh\<close> is what
  the block does once the awaited promise has settled with \<open>r\<close>: on a rejection it is
  left at the \<^verbatim>\<open>await\<close>, before any assignment; otherwise come the two assignments and
  the log, \<open>now'\<close> being \<^verbatim>\<open>Date.now()\<close> at that moment. \<open>tryRefresh\<close> is the whole block:
  the call of the API, then the rest.
\<close>

definition resumeRefresh ::
  "thrown + AirthingsApiDeviceSample \<Rightarrow> int \<Rightarrow> AirthingsPlugin
     \<Rightarrow> (thrown + unit) \<times> AirthingsPlugin \<times> event list" where
  "resumeRefresh r now' p =
    (case r of
       Inl e \<Rightarrow> (Inl e, p, [])
     | Inr s \<Rightarrow>
         (let p = p\<lparr>latestSamples := s\<rparr>;
              p = p\<lparr>latestSamplesTimestamp := now'\<rparr>
          in (Inr (), p, [InfoData (data (latestSamples p))])))"

definition tryRefresh ::
  "airthingsApi \<Rightarrow> int \<Rightarrow> string \<Rightarrow> AirthingsPlugin \<Rightarrow> (thrown + unit) \<times> AirthingsPlugin \<times> event list" where
  "tryRefresh api now' sn p =
    (case resumeRefresh (api sn) now' p of (r, p', evs) \<Rightarrow> (r, p', FetchCall sn # evs))"

text \<open>The \<^verbatim>\<open>catch\<close> block: it logs the message of an \<^verbatim>\<open>Error\<close> and rethrows nothing.\<close>

definition catchRefresh ::
  "(thrown + unit) \<times> AirthingsPlugin \<times> event list \<Rightarrow> (thrown + unit) \<times> AirthingsPlugin \<times> event list" where
  "catchRefresh r =
    (case r of
       (Inl err, p, evs) \<Rightarrow>
         (Inr (), p, evs @ (case err of Error message \<Rightarrow> [Err message] | NonError \<Rightarrow> []))
     | (Inr u, p, evs) \<Rightarrow> (Inr u, p, evs))"

text \<open>
  The callback that \<^verbatim>\<open>getLatestSamples\<close> runs under the mutex, for one caller running
  alone. \<open>now\<close> is \<^verbatim>\<open>Date.now()\<close> at the test. The result is whether the promise rejects,
  the object afterwards, and the calls made.
\<close>

definition getLatestSamples ::
  "airthingsApi \<Rightarrow> int \<Rightarrow> int \<Rightarrow> AirthingsPlugin \<Rightarrow> (thrown + unit) \<times> AirthingsPlugin \<times> event list" where
  "getLatestSamples api now now' p =
    (case serialNumber (airthingsConfig p) of
       None \<Rightarrow> (Inr (), p, [])
     | Some sn \<Rightarrow>
         if now - latestSamplesTimestamp p > 300 * 1000
         then (case catchRefresh (tryRefresh api now' sn p) of
                 (r, p', evs) \<Rightarrow> (r, p', Info ''Refreshing latest samples...'' # evs))
         else (Inr (), p, []))"

text \<open>The serial numbers the API was called with, in order.\<close>

definition fetchCalls :: "event list \<Rightarrow> string list" where
  "fetchCalls evs = List.map_filter (\<lambda>e. case e of FetchCall sn \<Rightarrow> Some sn | _ \<Rightarrow> None) evs"

text \<open>
  A getter: \<^verbatim>\<open>await this.getLatestSamples()\<close>, then an expression \<open>f\<close> over the cached
  data. A rejection of the awaited promise would reject the getter.
\<close>

definition onGet ::
  "(SampleData \<Rightarrow> 'a) \<Rightarrow> airthingsApi \<Rightarrow> int \<Rightarrow> int \<Rightarrow> AirthingsPlugin
     \<Rightarrow> (thrown + 'a) \<times> AirthingsPlugin \<times> event list" where
  "onGet f api now now' p =
    (case getLatestSamples api now now' p of
       (Inl e, p', evs) \<Rightarrow> (Inl e, p', evs)
     | (Inr u, p', evs) \<Rightarrow> (Inr (f (data (latestSamples p'))), p', evs))"

text \<open>
  The objects a plugin built from \<open>config\<close> can become: the constructor's result, and
  whatever a call of \<^verbatim>\<open>getLatestSamples\<close> leaves. Nothing else writes to the object.
\<close>

inductive reachable ::
  "(string option \<Rightarrow> AirthingsDeviceInfo) \<Rightarrow> AirthingsPluginConfig \<Rightarrow> AirthingsPlugin \<Rightarrow> bool"
  for getDevice config where
  constructed: "reachable getDevice config (fst (constructor getDevice config))"
| called: "reachable getDevice config p \<Longrightarrow> getLatestSamples api now now' p = (r, p', evs)
    \<Longrightarrow> reachable getDevice config p'"

section \<open>Concurrent callers\<close>

text \<open>
  Several getters may be waiting on \<^verbatim>\<open>getLatestSamples\<close> at once. JavaScript runs each
  piece of code between two \<^verbatim>\<open>await\<close>s without interruption, so the callers interleave
  only at four points, which are the actions below.
  \<^item> \<open>Arrive\<close>: a caller calls \<^verbatim>\<open>mutex.runExclusive\<close> and queues.
  \<^item> \<open>Enter now\<close>: the mutex, being free, is taken for a queued caller and its callback
    starts. The callback runs up to the \<^verbatim>\<open>await\<close> of the API call or, when there is nothing
    to fetch, to its end; \<open>now\<close> is \<^verbatim>\<open>Date.now()\<close> at the test.
  \<^item> \<open>Settle r now'\<close>: the API call in flight settles with \<open>r\<close> and the callback runs to
    its end; \<open>now'\<close> is \<^verbatim>\<open>Date.now()\<close> at the assignment.
  \<^item> \<open>Leave\<close>: the callback has ended and the mutex is released.

  \<^verbatim>\<open>Mutex.runExclusive\<close> comes from the library \<^verbatim>\<open>async-mutex\<close>. What is assumed of it: it
  starts a callback only when the mutex is free, holds the mutex for every callback,
  whether it fetches or not, and releases it only when the callback has ended.
\<close>

datatype action = Arrive | Enter int | Settle "thrown + AirthingsApiDeviceSample" int | Leave

text \<open>
  \<open>waiting\<close> counts the queued callers, \<open>locked\<close> is the state of the mutex, \<open>inFlight\<close>
  holds the serial numbers of the API calls not yet settled, \<open>calls\<close> is the log so far.
\<close>

record cacheSystem =
  plugin :: AirthingsPlugin
  waiting :: nat
  locked :: bool
  inFlight :: "string list"
  calls :: "event list"

text \<open>
  One action. \<open>None\<close> means the action cannot happen in that state: nobody is queued, the
  mutex is held, no call is in flight, or the callback has not ended.
\<close>

definition exec :: "action \<Rightarrow> cacheSystem \<Rightarrow> cacheSystem option" where
  "exec a s =
    (case a of
       Arrive \<Rightarrow> Some (s\<lparr>waiting := waiting s + 1\<rparr>)
     | Enter now \<Rightarrow>
         if locked s \<or> waiting s = 0 then None
         else (let s = s\<lparr>waiting := waiting s - 1, locked := True\<rparr>
               in case serialNumber (airthingsConfig (plugin s)) of
                    None \<Rightarrow> Some s
                  | Some sn \<Rightarrow>
                      if now - latestSamplesTimestamp (plugin s) > 300 * 1000
                      then Some (s\<lparr>inFlight := inFlight s @ [sn],
                                   calls := calls s @ [Info ''Refreshing latest samples...'',
                                                       FetchCall sn]\<rparr>)
                      else Some s)
     | Settle r now' \<Rightarrow>
         (case inFlight s of
            [] \<Rightarrow> None
          | sn # rest \<Rightarrow>
              (case catchRefresh (resumeRefresh r now' (plugin s)) of
                 (u, p', evs) \<Rightarrow>
                   Some (s\<lparr>plugin := p', inFlight := rest, calls := calls s @ evs\<rparr>)))
     | Leave \<Rightarrow>
         if locked s \<and> inFlight s = [] then Some (s\<lparr>locked := False\<rparr>) else None)"

fun run :: "action list \<Rightarrow> cacheSystem \<Rightarrow> cacheSystem option" where
  "run [] s = Some s"
| "run (a # as) s = (case exec a s of None \<Rightarrow> None | Some s' \<Rightarrow> run as s')"

text \<open>The system around a plugin on which no caller is waiting.\<close>

definition idle :: "AirthingsPlugin \<Rightarrow> cacheSystem" where
  "idle p = \<lparr>plugin = p, waiting = 0, locked = False, inFlight = [], calls = []\<rparr>"

text \<open>The times at which the callbacks of a schedule make their test.\<close>

fun enterTimes :: "action list \<Rightarrow> int list" where
  "enterTimes [] = []"
| "enterTimes (Enter now # as) = now # enterTimes as"
| "enterTimes (a # as) = enterTimes as"

text \<open>The API calls a schedule makes on an idle plugin, if the schedule can run.\<close>

definition fetchesOf :: "action list \<Rightarrow> AirthingsPlugin \<Rightarrow> string list option" where
  "fetchesOf as p = map_option (\<lambda>s. fetchCalls (calls s)) (run as (idle p))"

section \<open>Examples\<close>

text \<open>Concrete objects and API behaviours for the examples below.\<close>

definition examplePlugin :: AirthingsPlugin where
  "examplePlugin =
    \<lparr>airthingsConfig = \<lparr>clientId = Some ''id'', clientSecret = Some ''secret'',
                        serialNumber = Some ''2930012345''\<rparr>,
     airthingsDevice = \<lparr>model = ''Wave Plus''\<rparr>,
     latestSamples = \<lparr>data = emptyData\<lparr>co2 := Some 640, temp := Some 21\<rparr>\<rparr>,
     latestSamplesTimestamp = 1000000\<rparr>"

definition freshSample :: AirthingsApiDeviceSample where
  "freshSample = \<lparr>data = emptyData\<lparr>co2 := Some 1200, humidity := Some 45, time := Some 1300\<rparr>\<rparr>"

definition resolvingApi :: airthingsApi where
  "resolvingApi sn = Inr freshSample"

definition rejectingApi :: airthingsApi where
  "rejectingApi sn = Inl (Error ''503 Service Unavailable'')"

definition unconfigured :: AirthingsPluginConfig where
  "unconfigured = \<lparr>clientId = Some ''id'', clientSecret = Some ''secret'', serialNumber = None\<rparr>"

definition exampleGetDevice :: "string option \<Rightarrow> AirthingsDeviceInfo" where
  "exampleGetDevice sn = \<lparr>model = ''Unknown''\<rparr>"

text \<open>
  Five callers arrive together while the cache of \<open>examplePlugin\<close> is stale. In the first
  schedule every call of the API rejects. In the second the first call resolves, and
  \<open>fourMoreCallers\<close> is what the other four then do.
\<close>

definition fiveCallersRejected :: "action list" where
  "fiveCallersRejected =
    [Arrive, Arrive, Arrive, Arrive, Arrive,
     Enter 1301000, Settle (Inl (Error ''503 Service Unavailable'')) 1301100, Leave,
     Enter 1301100, Settle (Inl (Error ''503 Service Unavailable'')) 1301200, Leave,
     Enter 1301200, Settle (Inl (Error ''503 Service Unavailable'')) 1301300, Leave,
     Enter 1301300, Settle (Inl (Error ''503 Service Unavailable'')) 1301400, Leave,
     Enter 1301400, Settle (Inl (Error ''503 Service Unavailable'')) 1301500, Leave]"

definition fiveArrivals :: "action list" where
  "fiveArrivals = [Arrive, Arrive, Arrive, Arrive, Arrive]"

definition fourMoreCallers :: "action list" where
  "fourMoreCallers =
    [Leave, Enter 1301400, Leave, Enter 1301401, Leave, Enter 1301402, Leave,
     Enter 1301500, Leave]"

text \<open>States of the second schedule: the first call in flight, resolved, and the end.\<close>

definition fetching :: cacheSystem where
  "fetching =
    \<lparr>plugin = examplePlugin, waiting = 4, locked = True, inFlight = [''2930012345''],
     calls = [Info ''Refreshing latest samples...'', FetchCall ''2930012345'']\<rparr>"

definition refreshed :: cacheSystem where
  "refreshed =
    \<lparr>plugin = examplePlugin\<lparr>latestSamples := freshSample, latestSamplesTimestamp := 1301400\<rparr>,
     waiting = 4, locked = True, inFlight = [],
     calls = [Info ''Refreshing latest samples...'', FetchCall ''2930012345'',
              InfoData (data freshSample)]\<rparr>"

definition afterFive :: cacheSystem where
  "afterFive = refreshed\<lparr>waiting := 0, locked := False\<rparr>"

section \<open>Air quality classification\<close>

lemma max_table: "(if v \<ge> p then max aq POOR else if v \<ge> f then max aq FAIR else max aq EXCELLENT) = max aq (table p f v)"
  by (simp add: table_def)

lemma evalFactor_Humidity:
  "(case humidity d of None \<Rightarrow> UNKNOWN
    | Some h \<Rightarrow> if h < 25 \<or> h \<ge> 70 then POOR else if h < 30 \<or> h \<ge> 60 then FAIR else EXCELLENT)
   = evalFactor d Humidity UNKNOWN"
  by (simp add: evalFactor_def UNKNOWN_def split: option.split)

lemma evalFactor_others:
  "(case co2 d of None \<Rightarrow> aq | Some v \<Rightarrow> max aq (table 1000 800 v)) = evalFactor d Co2 aq"
  "(case mold d of None \<Rightarrow> aq | Some v \<Rightarrow> max aq (table 5 3 v)) = evalFactor d Mold aq"
  "(case pm25 d of None \<Rightarrow> aq | Some v \<Rightarrow> max aq (table 25 10 v)) = evalFactor d Pm25 aq"
  "(case radonShortTermAvg d of None \<Rightarrow> aq | Some v \<Rightarrow> max aq (table 150 100 v))
     = evalFactor d RadonShortTermAvg aq"
  "(case voc d of None \<Rightarrow> aq | Some v \<Rightarrow> max aq (table 2000 250 v)) = evalFactor d Voc aq"
  by (simp_all add: evalFactor_def split: option.split)

lemma airQuality_fold: "airQuality d = fold (evalFactor d) allFactors UNKNOWN"
proof -
  have "airQuality d =
    evalFactor d Voc (evalFactor d RadonShortTermAvg (evalFactor d Pm25
      (evalFactor d Mold (evalFactor d Co2 (evalFactor d Humidity UNKNOWN)))))"
    unfolding airQuality_def max_table evalFactor_others Let_def evalFactor_Humidity ..
  then show ?thesis by (simp add: allFactors_def)
qed

lemma fold_evalFactor_max: "fold (evalFactor d) fs a = fold max (presentLevels fs d) a"
proof (induction fs arbitrary: a)
  case Nil
  show ?case by (simp add: presentLevels_def)
next
  case (Cons f fs)
  show ?case
    using Cons[of "evalFactor d f a"]
    by (cases "reading f d") (simp_all add: presentLevels_def evalFactor_def max.commute)
qed

lemma fold_evalFactor: "fold (evalFactor d) fs a = Max (insert a (set (presentLevels fs d)))"
  using Max.set_eq_fold[of a "presentLevels fs d"] by (simp add: fold_evalFactor_max)


text \<open>
  C1. The rating the getter returns is the worst level among the factors present in the
  sample, each level read from the factor's threshold table, and \<open>UNKNOWN\<close> when no factor
  is present; the codes are ordered \<open>UNKNOWN < EXCELLENT < FAIR < POOR\<close>. The boundary
  examples for carbon dioxide hold.
\<close>

theorem airQuality_worst_present_factor:
  "airQuality d = classify d
   \<and> UNKNOWN < EXCELLENT \<and> EXCELLENT < FAIR \<and> FAIR < POOR
   \<and> airQuality emptyData = UNKNOWN
   \<and> airQuality (emptyData\<lparr>co2 := Some 1000\<rparr>) = POOR
   \<and> airQuality (emptyData\<lparr>co2 := Some 800\<rparr>) = FAIR
   \<and> airQuality (emptyData\<lparr>co2 := Some 799\<rparr>) = EXCELLENT"
proof -
  have "airQuality d = classify d"
  proof (cases "presentLevels allFactors d = []")
    case True
    then show ?thesis by (simp add: airQuality_fold fold_evalFactor classify_def)
  next
    case False
    then have "Max (insert UNKNOWN (set (presentLevels allFactors d))) = Max (set (presentLevels allFactors d))"
      by (simp add: UNKNOWN_def)
    with False show ?thesis by (simp add: airQuality_fold fold_evalFactor classify_def)
  qed
  moreover have "UNKNOWN < EXCELLENT \<and> EXCELLENT < FAIR \<and> FAIR < POOR"
    by (simp add: UNKNOWN_def EXCELLENT_def FAIR_def POOR_def)
  moreover have "airQuality emptyData = UNKNOWN"
    by (simp add: airQuality_def emptyData_def)
  moreover have "airQuality (emptyData\<lparr>co2 := Some 1000\<rparr>) = POOR"
    by (simp add: airQuality_def emptyData_def UNKNOWN_def)
  moreover have "airQuality (emptyData\<lparr>co2 := Some 800\<rparr>) = FAIR"
    by (simp add: airQuality_def emptyData_def UNKNOWN_def)
  moreover have "airQuality (emptyData\<lparr>co2 := Some 799\<rparr>) = EXCELLENT"
    by (simp add: airQuality_def emptyData_def UNKNOWN_def)
  ultimately show ?thesis by blast
qed

lemma evalFactor_levelOrFloor: "evalFactor d f aq = max aq (levelOrFloor f d)"
  by (simp add: evalFactor_def levelOrFloor_def UNKNOWN_def split: option.split)

lemma reading_withReading: "reading g (withReading f x d) = (if g = f then x else reading g d)"
  by (cases f; cases g; simp)

lemma fold_evalFactor_mono:
  "(\<And>g. levelOrFloor g d \<le> levelOrFloor g d') \<Longrightarrow> a \<le> a' \<Longrightarrow>
   fold (evalFactor d) fs a \<le> fold (evalFactor d') fs a'"
proof (induction fs arbitrary: a a')
  case Nil
  then show ?case by simp
next
  case (Cons f fs)
  have "evalFactor d f a \<le> evalFactor d' f a'"
    unfolding evalFactor_levelOrFloor using Cons.prems(1)[of f] Cons.prems(2) by (rule max.mono[rotated])
  then show ?case using Cons.IH[OF Cons.prems(1)] by simp
qed

lemma set_presentLevels:
  "set (presentLevels fs d) = {factorLevel f v | f v. f \<in> set fs \<and> reading f d = Some v}"
  by (induction fs) (auto simp: presentLevels_def split: option.splits)


text \<open>
  C6. Raising the severity of one present factor never lowers the rating, and the rating
  is the same in whatever order the six factors are folded into the running maximum.
\<close>

theorem airQuality_monotone_and_order_independent:
  "(reading f d = Some v \<and> factorLevel f v \<le> factorLevel f v'
      \<longrightarrow> airQuality d \<le> airQuality (withReading f (Some v') d))
   \<and> (set fs = set allFactors \<longrightarrow> fold (evalFactor d) fs UNKNOWN = airQuality d)"
proof (intro conjI impI)
  assume a: "reading f d = Some v \<and> factorLevel f v \<le> factorLevel f v'"
  have "levelOrFloor g d \<le> levelOrFloor g (withReading f (Some v') d)" for g
    using a by (simp add: levelOrFloor_def reading_withReading)
  then show "airQuality d \<le> airQuality (withReading f (Some v') d)"
    unfolding airQuality_fold by (rule fold_evalFactor_mono) simp
next
  assume "set fs = set allFactors"
  then show "fold (evalFactor d) fs UNKNOWN = airQuality d"
    unfolding airQuality_fold fold_evalFactor set_presentLevels by simp
qed

theorem airQuality_monotone_and_order_independent_witness:
  "reading Co2 (emptyData\<lparr>co2 := Some 500, humidity := Some 65\<rparr>) = Some 500
   \<and> factorLevel Co2 500 \<le> factorLevel Co2 1100
   \<and> airQuality (emptyData\<lparr>co2 := Some 500, humidity := Some 65\<rparr>) = FAIR
   \<and> airQuality (withReading Co2 (Some 1100) (emptyData\<lparr>co2 := Some 500, humidity := Some 65\<rparr>)) = POOR
   \<and> set (rev allFactors) = set allFactors
   \<and> fold (evalFactor (emptyData\<lparr>co2 := Some 500, humidity := Some 65\<rparr>)) (rev allFactors) UNKNOWN = FAIR"
  using airQuality_monotone_and_order_independent
    [of Co2 "emptyData\<lparr>co2 := Some 500, humidity := Some 65\<rparr>" 500 1100 "rev allFactors"]
  by (simp add: airQuality_def emptyData_def table_def UNKNOWN_def EXCELLENT_def FAIR_def POOR_def)

section \<open>VOC density\<close>

lemma Num_plus: "Num a + Num b = Num (a + b)"
  by (simp add: plus_jsnum_def isInfinite_def finiteResult_def signedZero_def negative_def magnitude_def)

lemma Num_times: "a \<noteq> 0 \<Longrightarrow> b \<noteq> 0 \<Longrightarrow> Num a * Num b = Num (a * b)"
  by (simp add: times_jsnum_def isInfinite_def isZero_def finiteResult_def magnitude_def)

lemma Num_divide: "a \<noteq> 0 \<Longrightarrow> b \<noteq> 0 \<Longrightarrow> Num a / Num b = Num (a / b)"
  by (simp add: divide_jsnum_def isInfinite_def isZero_def finiteResult_def magnitude_def)

lemma jsValue_Num_times: "jsValue (Num a * Num b) = Some (a * b)"
  by (simp add: times_jsnum_def isInfinite_def isZero_def finiteResult_def magnitude_def
      signedZero_def jsValue_def)

lemma divide_by_zero: "a \<noteq> 0 \<Longrightarrow> Num a / Num 0 = signedInfinity (a < 0)"
  by (simp add: divide_jsnum_def isInfinite_def isZero_def negative_def)

lemma times_signedInfinity: "a \<noteq> 0 \<Longrightarrow> Num a * signedInfinity n = signedInfinity ((a < 0) \<noteq> n)"
  by (simp add: times_jsnum_def isInfinite_def isZero_def negative_def signedInfinity_def)

lemma divide_signedInfinity: "Num a / signedInfinity n = signedZero ((a < 0) \<noteq> n)"
  by (simp add: divide_jsnum_def isInfinite_def isZero_def negative_def signedInfinity_def)

lemma jsValue_times_signedZero: "jsValue (Num a * signedZero n) = Some 0"
  by (simp add: times_jsnum_def isInfinite_def isZero_def negative_def signedZero_def
      finiteResult_def magnitude_def jsValue_def)

lemma zero_divide: "b \<noteq> 0 \<Longrightarrow> Num 0 / Num b = signedZero (b < 0)"
  by (simp add: divide_jsnum_def isInfinite_def isZero_def negative_def finiteResult_def magnitude_def)

lemma times_signedZero: "Num a * signedZero n = signedZero ((a < 0) \<noteq> n)"
  by (simp add: times_jsnum_def isInfinite_def isZero_def negative_def signedZero_def
      finiteResult_def magnitude_def)

lemma signedZero_times: "b \<noteq> 0 \<Longrightarrow> signedZero n * Num b = signedZero (n \<noteq> (b < 0))"
  by (simp add: times_jsnum_def isInfinite_def isZero_def negative_def signedZero_def
      finiteResult_def magnitude_def)

lemma signedZero_times_signedInfinity: "signedZero n * signedInfinity m = NaN"
  by (simp add: times_jsnum_def isInfinite_def isZero_def signedZero_def signedInfinity_def)

lemma divide_signedZero: "a \<noteq> 0 \<Longrightarrow> Num a / signedZero n = signedInfinity ((a < 0) \<noteq> n)"
  by (simp add: divide_jsnum_def isInfinite_def isZero_def negative_def signedZero_def)

lemma divide_NaN: "a / NaN = NaN"
  by (simp add: divide_jsnum_def)

lemma times_NaN: "a * NaN = NaN"
  by (simp add: times_jsnum_def)

lemma jsValue_times_signedInfinity: "jsValue (Num a * signedInfinity n) = None"
  by (simp add: times_jsnum_def isInfinite_def isZero_def signedInfinity_def jsValue_def)

lemma jsValue_NaN: "jsValue NaN = None"
  by (simp add: jsValue_def)

lemma vocDensity_value:
  "jsValue (Num v * (Num 78 / (Num 22.41 * ((Num t + Num 273) / Num 273) * (Num 1013 / Num p))))
   = (if t = - 273 then None
      else if p = 0 then Some 0
      else Some (v * (78 / (22.41 * ((t + 273) / 273) * (1013 / p)))))"
proof (cases "t = - 273")
  case True
  have z: "Num 22.41 * ((Num t + Num 273) / Num 273) = signedZero False"
    using True by (simp add: Num_plus zero_divide times_signedZero)
  show ?thesis
  proof (cases "p = 0")
    case p: True
    show ?thesis
      unfolding z using True p
      by (simp add: divide_by_zero signedZero_times_signedInfinity divide_NaN times_NaN
          jsValue_NaN)
  next
    case p: False
    show ?thesis
      unfolding z using True p
      by (simp add: Num_divide signedZero_times divide_signedZero
          jsValue_times_signedInfinity)
  qed
next
  case False
  then have n: "t + 273 \<noteq> 0" by simp
  have x: "Num 22.41 * ((Num t + Num 273) / Num 273) = Num (22.41 * ((t + 273) / 273))"
    using n by (simp add: Num_plus Num_divide Num_times)
  have x0: "22.41 * ((t + 273) / 273) \<noteq> 0"
    using n by simp
  show ?thesis
  proof (cases "p = 0")
    case True
    show ?thesis
      unfolding x using False True x0
      by (simp add: divide_by_zero times_signedInfinity divide_signedInfinity
          jsValue_times_signedZero)
  next
    case p: False
    have y: "Num 1013 / Num p = Num (1013 / p)"
      using p by (simp add: Num_divide)
    have y0: "22.41 * ((t + 273) / 273) * (1013 / p) \<noteq> 0"
      using x0 p by simp
    have "Num 78 / (Num (22.41 * ((t + 273) / 273)) * Num (1013 / p))
        = Num (78 / (22.41 * ((t + 273) / 273) * (1013 / p)))"
      using x0 p y0 by (simp add: Num_times Num_divide)
    then show ?thesis
      unfolding x y using False p by (simp add: jsValue_Num_times)
  qed
qed

text \<open>
  C3 as stated fails: with the temperature absent the getter falls back to 25 degrees, not
  to a temperature factor of one, so a lone \<open>voc = 100\<close> does not give
  \<open>100 * (78 / (22.41 * 1 * 1))\<close>.
\<close>

theorem vocDensity_voc_100_counterexample:
  "vocDensity (emptyData\<lparr>voc := Some 100\<rparr>) \<noteq> Num (100 * (78 / (22.41 * 1 * 1)))"
  by (simp add: vocDensity_def emptyData_def Num_plus Num_divide Num_times)

text \<open>
  C3, amended. The VOC density of the empty sample is 0, and that of a sample holding only
  \<open>voc = 100\<close> is \<open>100 * (78 / (22.41 * ((25 + 273) / 273) * (1013 / 1013)))\<close>, which lies
  between 318.85 and 318.87.
\<close>

theorem vocDensity_examples:
  "vocDensity emptyData = Num 0
   \<and> vocDensity (emptyData\<lparr>voc := Some 100\<rparr>)
       = Num (100 * (78 / (22.41 * ((25 + 273) / 273) * (1013 / 1013))))
   \<and> (318.85 :: rat) < 100 * (78 / (22.41 * ((25 + 273) / 273) * (1013 / 1013)))
   \<and> (100 * (78 / (22.41 * ((25 + 273) / 273) * (1013 / 1013))) :: rat) < 318.87"
  by (simp add: vocDensity_def emptyData_def Num_plus Num_divide Num_times)

text \<open>
  C4. For every sample, with \<open>t\<close> the temperature or 25 and \<open>p\<close> the pressure or 1013: the
  getter returns 0 when voc is absent and
  \<open>voc * (78 / (22.41 * ((t + 273) / 273) * (1013 / p)))\<close>, in JavaScript arithmetic, when
  voc is present. In ordinary arithmetic that number is the value of the same formula
  when no divisor is zero; it is zero when the pressure is 0 (\<open>1013 / 0\<close> is infinite and
  78 divided by it is zero); and it is not finite when the temperature is \<open>- 273\<close>.
\<close>

theorem vocDensity_formula:
  "(let t = (case temp d of None \<Rightarrow> 25 | Some x \<Rightarrow> x);
        p = (case pressure d of None \<Rightarrow> 1013 | Some x \<Rightarrow> x)
    in vocDensity d =
         (case voc d of
            None \<Rightarrow> Num 0
          | Some v \<Rightarrow>
              Num v * (Num 78 / (Num 22.41 * ((Num t + Num 273) / Num 273) * (Num 1013 / Num p))))
       \<and> jsValue (vocDensity d) =
         (case voc d of
            None \<Rightarrow> Some 0
          | Some v \<Rightarrow>
              if t = - 273 then None
              else if p = 0 then Some 0
              else Some (v * (78 / (22.41 * ((t + 273) / 273) * (1013 / p))))))"
proof (cases "voc d")
  case None
  then show ?thesis by (simp add: vocDensity_def jsValue_def)
next
  case (Some v)
  then show ?thesis
    unfolding Let_def vocDensity_def by (simp only: option.case vocDensity_value simp_thms)
qed

section \<open>Status flags and defaults\<close>

lemma recentEnough_iff:
  "recentEnough now d = (\<exists>t. time d = Some t \<and> of_int now / 1000 - t < 7200)"
  by (simp add: recentEnough_def split: option.split)

text \<open>
  C7. The status of temperature, humidity, carbon dioxide and pressure is active exactly
  when the quantity's own field and the time field are present and the reading is less
  than 7200 seconds old; the air-quality status depends on the time field alone.
\<close>

theorem statusActive_iff:
  "temperatureStatusActive now d
     = (\<exists>v t. temp d = Some v \<and> time d = Some t \<and> of_int now / 1000 - t < 7200)
   \<and> humidityStatusActive now d
     = (\<exists>v t. humidity d = Some v \<and> time d = Some t \<and> of_int now / 1000 - t < 7200)
   \<and> carbonDioxideStatusActive now d
     = (\<exists>v t. co2 d = Some v \<and> time d = Some t \<and> of_int now / 1000 - t < 7200)
   \<and> airPressureStatusActive now d
     = (\<exists>v t. pressure d = Some v \<and> time d = Some t \<and> of_int now / 1000 - t < 7200)
   \<and> airQualityStatusActive now d
     = (\<exists>t. time d = Some t \<and> of_int now / 1000 - t < 7200)
   \<and> airQualityStatusActive now d = airQualityStatusActive now (emptyData\<lparr>time := time d\<rparr>)"
proof -
  have "temperatureStatusActive now d
     = (\<exists>v t. temp d = Some v \<and> time d = Some t \<and> of_int now / 1000 - t < 7200)"
    by (auto simp: temperatureStatusActive_def recentEnough_iff)
  moreover have "humidityStatusActive now d
     = (\<exists>v t. humidity d = Some v \<and> time d = Some t \<and> of_int now / 1000 - t < 7200)"
    by (auto simp: humidityStatusActive_def recentEnough_iff)
  moreover have "carbonDioxideStatusActive now d
     = (\<exists>v t. co2 d = Some v \<and> time d = Some t \<and> of_int now / 1000 - t < 7200)"
    by (auto simp: carbonDioxideStatusActive_def recentEnough_iff)
  moreover have "airPressureStatusActive now d
     = (\<exists>v t. pressure d = Some v \<and> time d = Some t \<and> of_int now / 1000 - t < 7200)"
    by (auto simp: airPressureStatusActive_def recentEnough_iff)
  moreover have "airQualityStatusActive now d
     = (\<exists>t. time d = Some t \<and> of_int now / 1000 - t < 7200)"
    by (simp add: airQualityStatusActive_def recentEnough_iff)
  moreover have "airQualityStatusActive now d = airQualityStatusActive now (emptyData\<lparr>time := time d\<rparr>)"
    by (simp add: airQualityStatusActive_def recentEnough_def)
  ultimately show ?thesis by blast
qed

text \<open>
  C8. A getter whose field is absent returns its default: battery level 100, humidity 0,
  carbon dioxide level 0, air pressure 1012, mold 0, radon 0, VOC density 0, and no value
  for the temperature. The low-battery flag is normal exactly when the battery reading is
  absent or above 10, the carbon dioxide flag exactly when the reading is absent or
  below 1000.
\<close>

theorem getter_defaults:
  "(battery d = None \<longrightarrow> batteryLevel d = 100)
   \<and> (humidity d = None \<longrightarrow> currentRelativeHumidity d = 0)
   \<and> (co2 d = None \<longrightarrow> carbonDioxideLevel d = 0)
   \<and> (pressure d = None \<longrightarrow> airPressure d = 1012)
   \<and> (mold d = None \<longrightarrow> moldValue d = 0)
   \<and> (radonShortTermAvg d = None \<longrightarrow> radonShortTerm d = 0)
   \<and> (voc d = None \<longrightarrow> vocDensity d = Num 0)
   \<and> (temp d = None \<longrightarrow> currentTemperature d = None)
   \<and> (statusLowBattery d = BATTERY_LEVEL_NORMAL
        \<longleftrightarrow> battery d = None \<or> (\<exists>b. battery d = Some b \<and> b > 10))
   \<and> (carbonDioxideDetected d = CO2_LEVELS_NORMAL
        \<longleftrightarrow> co2 d = None \<or> (\<exists>c. co2 d = Some c \<and> c < 1000))"
proof -
  have "statusLowBattery d = BATTERY_LEVEL_NORMAL
        \<longleftrightarrow> battery d = None \<or> (\<exists>b. battery d = Some b \<and> b > 10)"
    by (simp add: statusLowBattery_def split: option.split)
  moreover have "carbonDioxideDetected d = CO2_LEVELS_NORMAL
        \<longleftrightarrow> co2 d = None \<or> (\<exists>c. co2 d = Some c \<and> c < 1000)"
    by (simp add: carbonDioxideDetected_def split: option.split)
  moreover have "voc d = None \<longrightarrow> vocDensity d = Num 0"
    by (simp add: vocDensity_def)
  ultimately show ?thesis
    by (simp add: batteryLevel_def currentRelativeHumidity_def carbonDioxideLevel_def
        airPressure_def moldValue_def radonShortTerm_def currentTemperature_def)
qed

theorem getter_defaults_witness:
  "battery emptyData = None \<and> batteryLevel emptyData = 100
   \<and> humidity emptyData = None \<and> currentRelativeHumidity emptyData = 0
   \<and> co2 emptyData = None \<and> carbonDioxideLevel emptyData = 0
   \<and> pressure emptyData = None \<and> airPressure emptyData = 1012
   \<and> mold emptyData = None \<and> moldValue emptyData = 0
   \<and> radonShortTermAvg emptyData = None \<and> radonShortTerm emptyData = 0
   \<and> voc emptyData = None \<and> vocDensity emptyData = Num 0
   \<and> temp emptyData = None \<and> currentTemperature emptyData = None
   \<and> statusLowBattery emptyData = BATTERY_LEVEL_NORMAL
   \<and> statusLowBattery (emptyData\<lparr>battery := Some 10\<rparr>) \<noteq> BATTERY_LEVEL_NORMAL
   \<and> carbonDioxideDetected emptyData = CO2_LEVELS_NORMAL
   \<and> carbonDioxideDetected (emptyData\<lparr>co2 := Some 1000\<rparr>) \<noteq> CO2_LEVELS_NORMAL"
  using getter_defaults [of emptyData] getter_defaults [of "emptyData\<lparr>battery := Some 10\<rparr>"]
    getter_defaults [of "emptyData\<lparr>co2 := Some 1000\<rparr>"]
  by (simp add: emptyData_def)

section \<open>The sample cache\<close>

lemma getLatestSamples_not_due:
  "\<not> now - latestSamplesTimestamp p > 300 * 1000 \<Longrightarrow> getLatestSamples api now now' p = (Inr (), p, [])"
  by (simp add: getLatestSamples_def split: option.split)

lemma getLatestSamples_rejected:
  "serialNumber (airthingsConfig p) = Some sn \<Longrightarrow> now - latestSamplesTimestamp p > 300 * 1000
   \<Longrightarrow> api sn = Inl e
   \<Longrightarrow> getLatestSamples api now now' p =
       (Inr (), p, [Info ''Refreshing latest samples...'', FetchCall sn]
                   @ (case e of Error message \<Rightarrow> [Err message] | NonError \<Rightarrow> []))"
  by (simp add: getLatestSamples_def tryRefresh_def resumeRefresh_def catchRefresh_def)

lemma getLatestSamples_resolved:
  "serialNumber (airthingsConfig p) = Some sn \<Longrightarrow> now - latestSamplesTimestamp p > 300 * 1000
   \<Longrightarrow> api sn = Inr s
   \<Longrightarrow> getLatestSamples api now now' p =
       (Inr (), p\<lparr>latestSamples := s, latestSamplesTimestamp := now'\<rparr>,
        [Info ''Refreshing latest samples...'', FetchCall sn, InfoData (data s)])"
  by (simp add: getLatestSamples_def tryRefresh_def resumeRefresh_def catchRefresh_def)

lemma getLatestSamples_fetchCalls:
  "serialNumber (airthingsConfig p) = Some sn \<Longrightarrow>
   fetchCalls (snd (snd (getLatestSamples api now now' p)))
     = (if now - latestSamplesTimestamp p > 300 * 1000 then [sn] else [])"
proof (cases "now - latestSamplesTimestamp p > 300 * 1000")
  case False
  then show ?thesis by (simp add: getLatestSamples_not_due fetchCalls_def)
next
  case True
  assume sn: "serialNumber (airthingsConfig p) = Some sn"
  show ?thesis
  proof (cases "api sn")
    case (Inl e)
    show ?thesis
      unfolding getLatestSamples_rejected[where api = api, OF sn True Inl]
      using True by (cases e) (simp_all add: fetchCalls_def)
  next
    case (Inr s)
    show ?thesis
      unfolding getLatestSamples_resolved[where api = api, OF sn True Inr]
      using True by (simp add: fetchCalls_def)
  qed
qed

lemma getLatestSamples_resolves: "fst (getLatestSamples api now now' p) = Inr ()"
  by (simp add: getLatestSamples_def tryRefresh_def resumeRefresh_def catchRefresh_def Let_def
      split: option.split sum.split)

lemma getLatestSamples_config:
  "airthingsConfig (fst (snd (getLatestSamples api now now' p))) = airthingsConfig p"
  by (simp add: getLatestSamples_def tryRefresh_def resumeRefresh_def catchRefresh_def Let_def
      split: option.split sum.split)

lemma getLatestSamples_rejecting_api:
  assumes "\<forall>sn. isl (api sn)"
  shows "fst (snd (getLatestSamples api now now' p)) = p"
proof (cases "serialNumber (airthingsConfig p)")
  case None
  then show ?thesis by (simp add: getLatestSamples_def)
next
  case (Some sn)
  from assms obtain e where e: "api sn = Inl e" by (cases "api sn") (auto dest: spec[of _ sn])
  show ?thesis
  proof (cases "now - latestSamplesTimestamp p > 300 * 1000")
    case True
    show ?thesis unfolding getLatestSamples_rejected[where api = api, OF Some True e] by simp
  next
    case False
    then show ?thesis by (simp add: getLatestSamples_not_due)
  qed
qed

text \<open>
  C2 as stated fails at the boundary: a call made exactly 300 seconds after the last
  successful fetch does not fetch, because the source tests \<^verbatim>\<open>>\<close>, not \<^verbatim>\<open>>=\<close>.
\<close>

theorem getLatestSamples_ttl_boundary_counterexample:
  "serialNumber (airthingsConfig examplePlugin) = Some ''2930012345''
   \<and> 1300000 - latestSamplesTimestamp examplePlugin \<ge> 300 * 1000
   \<and> fetchCalls (snd (snd (getLatestSamples resolvingApi 1300000 1300400 examplePlugin))) = []"
  by (simp add: examplePlugin_def getLatestSamples_def fetchCalls_def)

text \<open>
  C2, amended. With a serial number configured, \<^verbatim>\<open>getLatestSamples\<close> calls the API, once
  and with that serial number, exactly when more than 300 seconds (300000 ms) have passed
  since the last successful fetch; otherwise it calls nothing and leaves the object as it
  was.
\<close>

theorem getLatestSamples_fetches_iff_ttl_exceeded:
  "serialNumber (airthingsConfig p) = Some sn \<longrightarrow>
     fetchCalls (snd (snd (getLatestSamples api now now' p)))
       = (if now - latestSamplesTimestamp p > 300 * 1000 then [sn] else [])
     \<and> (\<not> now - latestSamplesTimestamp p > 300 * 1000
          \<longrightarrow> getLatestSamples api now now' p = (Inr (), p, []))"
  by (simp add: getLatestSamples_fetchCalls getLatestSamples_not_due)

theorem getLatestSamples_fetches_iff_ttl_exceeded_witness:
  "serialNumber (airthingsConfig examplePlugin) = Some ''2930012345''
   \<and> latestSamplesTimestamp examplePlugin = 1000000
   \<and> fetchCalls (snd (snd (getLatestSamples resolvingApi 1010000 1010400 examplePlugin))) = []
   \<and> getLatestSamples resolvingApi 1010000 1010400 examplePlugin = (Inr (), examplePlugin, [])
   \<and> fetchCalls (snd (snd (getLatestSamples resolvingApi 1301000 1301400 examplePlugin)))
       = [''2930012345'']"
  using getLatestSamples_fetches_iff_ttl_exceeded
      [of examplePlugin "''2930012345''" resolvingApi 1010000 1010400]
    getLatestSamples_fetches_iff_ttl_exceeded
      [of examplePlugin "''2930012345''" resolvingApi 1301000 1301400]
  by (simp add: examplePlugin_def fetchCalls_def)

text \<open>
  C5. \<^verbatim>\<open>getLatestSamples\<close> never rejects, and neither does a getter awaiting it. When the
  API rejects, the object (cached sample and timestamp included) is left exactly as it
  was, and the getter answers from the sample cached before the call.
\<close>

theorem getLatestSamples_absorbs_rejection:
  "fst (getLatestSamples api now now' p) = Inr ()
   \<and> fst (onGet f api now now' p)
       = Inr (f (data (latestSamples (fst (snd (getLatestSamples api now now' p))))))
   \<and> ((\<forall>sn. isl (api sn)) \<longrightarrow>
        fst (snd (getLatestSamples api now now' p)) = p
        \<and> fst (snd (onGet f api now now' p)) = p
        \<and> fst (onGet f api now now' p) = Inr (f (data (latestSamples p))))"
proof -
  obtain r p' evs where g: "getLatestSamples api now now' p = (r, p', evs)"
    by (cases "getLatestSamples api now now' p") auto
  have r: "r = Inr ()" using getLatestSamples_resolves[of api now now' p] g by simp
  have 1: "fst (onGet f api now now' p) = Inr (f (data (latestSamples p')))"
    and 2: "fst (snd (onGet f api now now' p)) = p'"
    by (simp_all add: onGet_def g r)
  have 3: "(\<forall>sn. isl (api sn)) \<longrightarrow> p' = p"
    using getLatestSamples_rejecting_api[of api now now' p] g by simp
  show ?thesis using r 1 2 3 by (simp add: g)
qed

theorem getLatestSamples_absorbs_rejection_witness:
  "(\<forall>sn. isl (rejectingApi sn))
   \<and> fetchCalls (snd (snd (getLatestSamples rejectingApi 1301000 1301400 examplePlugin)))
       = [''2930012345'']
   \<and> getLatestSamples rejectingApi 1301000 1301400 examplePlugin
       = (Inr (), examplePlugin,
          [Info ''Refreshing latest samples...'', FetchCall ''2930012345'',
           Err ''503 Service Unavailable''])
   \<and> fst (onGet carbonDioxideLevel rejectingApi 1301000 1301400 examplePlugin) = Inr 640"
proof -
  have h: "\<forall>sn. isl (rejectingApi sn)" by (simp add: rejectingApi_def)
  have g: "getLatestSamples rejectingApi 1301000 1301400 examplePlugin
       = (Inr (), examplePlugin,
          [Info ''Refreshing latest samples...'', FetchCall ''2930012345'',
           Err ''503 Service Unavailable''])"
    by (simp add: getLatestSamples_def tryRefresh_def resumeRefresh_def catchRefresh_def rejectingApi_def
        examplePlugin_def)
  have d: "carbonDioxideLevel (data (latestSamples examplePlugin)) = 640"
    by (simp add: carbonDioxideLevel_def examplePlugin_def emptyData_def)
  show ?thesis
    using getLatestSamples_absorbs_rejection
      [of rejectingApi 1301000 1301400 examplePlugin carbonDioxideLevel] h g d
    by (simp add: fetchCalls_def)
qed

section \<open>The serial number\<close>

lemma constructor_serialNumber:
  "serialNumber (airthingsConfig (fst (constructor getDevice config)))
     = Some (case serialNumber config of None \<Rightarrow> ''0000000000'' | Some s \<Rightarrow> s)"
  by (cases "serialNumber config") (simp_all add: constructor_def Let_def)

lemma reachable_serialNumber:
  "reachable getDevice config p \<Longrightarrow>
   serialNumber (airthingsConfig p)
     = Some (case serialNumber config of None \<Rightarrow> ''0000000000'' | Some s \<Rightarrow> s)"
proof (induction rule: reachable.induct)
  case constructed
  show ?case by (rule constructor_serialNumber)
next
  case (called p api now now' r p' evs)
  then show ?case using getLatestSamples_config[of api now now' p] by simp
qed

text \<open>
  C10. In every object reachable from the constructor the stored serial number is
  present, so the early return of \<^verbatim>\<open>getLatestSamples\<close> is never taken; and a plugin
  configured without a serial number calls the API with the placeholder \<open>0000000000\<close>
  whenever the time to live has expired.
\<close>

theorem serialNumber_never_null:
  "(reachable getDevice config p \<longrightarrow>
      serialNumber (airthingsConfig p) \<noteq> None
      \<and> getLatestSamples api now now' p =
          (if now - latestSamplesTimestamp p > 300 * 1000
           then (case catchRefresh (tryRefresh api now'
                        (case serialNumber config of None \<Rightarrow> ''0000000000'' | Some s \<Rightarrow> s) p) of
                   (r, p', evs) \<Rightarrow> (r, p', Info ''Refreshing latest samples...'' # evs))
           else (Inr (), p, [])))
   \<and> (reachable getDevice config p \<and> serialNumber config = None
        \<and> now - latestSamplesTimestamp p > 300 * 1000 \<longrightarrow>
      fetchCalls (snd (snd (getLatestSamples api now now' p))) = [''0000000000''])"
proof (intro conjI impI)
  assume "reachable getDevice config p"
  then show "serialNumber (airthingsConfig p) \<noteq> None"
    using reachable_serialNumber[of getDevice config p] by simp
next
  assume "reachable getDevice config p"
  then show "getLatestSamples api now now' p =
          (if now - latestSamplesTimestamp p > 300 * 1000
           then (case catchRefresh (tryRefresh api now'
                        (case serialNumber config of None \<Rightarrow> ''0000000000'' | Some s \<Rightarrow> s) p) of
                   (r, p', evs) \<Rightarrow> (r, p', Info ''Refreshing latest samples...'' # evs))
           else (Inr (), p, []))"
    using reachable_serialNumber[of getDevice config p] by (simp add: getLatestSamples_def)
next
  assume a: "reachable getDevice config p \<and> serialNumber config = None
        \<and> now - latestSamplesTimestamp p > 300 * 1000"
  then have "serialNumber (airthingsConfig p) = Some ''0000000000''"
    using reachable_serialNumber[of getDevice config p] by simp
  then show "fetchCalls (snd (snd (getLatestSamples api now now' p))) = [''0000000000'']"
    using a by (simp add: getLatestSamples_fetchCalls)
qed

theorem serialNumber_never_null_witness:
  "reachable exampleGetDevice unconfigured (fst (constructor exampleGetDevice unconfigured))
   \<and> serialNumber unconfigured = None
   \<and> 1700000000000 - latestSamplesTimestamp (fst (constructor exampleGetDevice unconfigured)) > 300 * 1000
   \<and> serialNumber (airthingsConfig (fst (constructor exampleGetDevice unconfigured))) \<noteq> None
   \<and> fetchCalls (snd (snd (getLatestSamples resolvingApi 1700000000000 1700000000400
         (fst (constructor exampleGetDevice unconfigured))))) = [''0000000000'']"
proof -
  have r: "reachable exampleGetDevice unconfigured (fst (constructor exampleGetDevice unconfigured))"
    by (rule reachable.constructed)
  have n: "serialNumber unconfigured = None" by (simp add: unconfigured_def)
  have t: "1700000000000 - latestSamplesTimestamp (fst (constructor exampleGetDevice unconfigured)) > 300 * 1000"
    by (simp add: constructor_def unconfigured_def Let_def)
  show ?thesis
    using serialNumber_never_null
      [of exampleGetDevice unconfigured "fst (constructor exampleGetDevice unconfigured)"
          resolvingApi 1700000000000 1700000000400] r n t
    by blast
qed

section \<open>Concurrent callers: proofs\<close>

lemma run_append: "run (as @ bs) s = (case run as s of None \<Rightarrow> None | Some s' \<Rightarrow> run bs s')"
  by (induction as arbitrary: s) (simp_all split: option.split)

lemma run_append_Some:
  "run (as @ bs) s = Some s' \<Longrightarrow> \<exists>m. run as s = Some m \<and> run bs m = Some s'"
  by (simp add: run_append split: option.splits)

text \<open>A caller running alone through the system does what \<open>getLatestSamples\<close> does.\<close>

lemma run_alone:
  "\<exists>s'. run (Arrive # Enter now #
              (case serialNumber (airthingsConfig p) of
                 None \<Rightarrow> []
               | Some sn \<Rightarrow> if now - latestSamplesTimestamp p > 300 * 1000
                            then [Settle (api sn) now'] else []) @ [Leave])
            (idle p) = Some s'
        \<and> plugin s' = fst (snd (getLatestSamples api now now' p))
        \<and> calls s' = snd (snd (getLatestSamples api now now' p))
        \<and> waiting s' = 0 \<and> \<not> locked s' \<and> inFlight s' = []"
proof (cases "serialNumber (airthingsConfig p)")
  case None
  then show ?thesis by (simp add: exec_def idle_def getLatestSamples_def)
next
  case (Some sn)
  show ?thesis
  proof (cases "now - latestSamplesTimestamp p > 300 * 1000")
    case False
    then show ?thesis using Some by (simp add: exec_def idle_def getLatestSamples_def)
  next
    case True
    obtain u p' evs where c: "catchRefresh (resumeRefresh (api sn) now' p) = (u, p', evs)"
      by (cases "catchRefresh (resumeRefresh (api sn) now' p)") auto
    have "catchRefresh (tryRefresh api now' sn p) = (u, p', FetchCall sn # evs)"
      using c by (auto simp: tryRefresh_def catchRefresh_def split: prod.splits sum.splits)
    then show ?thesis using Some True c
      by (simp add: exec_def idle_def getLatestSamples_def)
  qed
qed

lemma exec_oneAtATime:
  "length (inFlight s) \<le> 1 \<and> (inFlight s \<noteq> [] \<longrightarrow> locked s) \<Longrightarrow> exec a s = Some s'
   \<Longrightarrow> length (inFlight s') \<le> 1 \<and> (inFlight s' \<noteq> [] \<longrightarrow> locked s')"
  by (cases a)
     (auto simp: exec_def Let_def split: if_splits option.splits list.splits prod.splits)

lemma run_oneAtATime:
  "length (inFlight s) \<le> 1 \<and> (inFlight s \<noteq> [] \<longrightarrow> locked s) \<Longrightarrow> run as s = Some s'
   \<Longrightarrow> length (inFlight s') \<le> 1 \<and> (inFlight s' \<noteq> [] \<longrightarrow> locked s')"
proof (induction as arbitrary: s)
  case Nil
  then show ?case by simp
next
  case (Cons a as)
  from Cons.prems(2) obtain s1 where s1: "exec a s = Some s1" and r: "run as s1 = Some s'"
    by (auto split: option.splits)
  from Cons.prems(1) s1
  have "length (inFlight s1) \<le> 1 \<and> (inFlight s1 \<noteq> [] \<longrightarrow> locked s1)"
    by (rule exec_oneAtATime)
  then show ?case using r by (rule Cons.IH)
qed

lemma exec_snapshot:
  "exec a s = Some s' \<Longrightarrow>
   (latestSamples (plugin s') = latestSamples (plugin s)
    \<and> latestSamplesTimestamp (plugin s') = latestSamplesTimestamp (plugin s))
   \<or> (\<exists>smp t. a = Settle (Inr smp) t
        \<and> latestSamples (plugin s') = smp \<and> latestSamplesTimestamp (plugin s') = t)"
  by (cases a)
     (auto simp: exec_def Let_def resumeRefresh_def catchRefresh_def
           split: if_splits option.splits list.splits prod.splits sum.splits)

lemma exec_fresh:
  assumes "inFlight s = []" and "exec a s = Some s'"
    and "\<forall>n \<in> set (enterTimes [a]). n - latestSamplesTimestamp (plugin s) \<le> 300 * 1000"
  shows "plugin s' = plugin s \<and> calls s' = calls s \<and> inFlight s' = []"
  using assms by (cases a) (auto simp: exec_def Let_def split: if_splits option.splits)

lemma enterTimes_Cons: "set (enterTimes (a # as)) = set (enterTimes [a]) \<union> set (enterTimes as)"
  by (cases a) simp_all

lemma run_fresh:
  "inFlight s = [] \<Longrightarrow> run as s = Some s'
   \<Longrightarrow> \<forall>n \<in> set (enterTimes as). n - latestSamplesTimestamp (plugin s) \<le> 300 * 1000
   \<Longrightarrow> plugin s' = plugin s \<and> calls s' = calls s \<and> inFlight s' = []"
proof (induction as arbitrary: s)
  case Nil
  then show ?case by simp
next
  case (Cons a as)
  from Cons.prems(2) obtain s1 where s1: "exec a s = Some s1" and r: "run as s1 = Some s'"
    by (auto split: option.splits)
  have e: "plugin s1 = plugin s \<and> calls s1 = calls s \<and> inFlight s1 = []"
    using Cons.prems(1) s1 Cons.prems(3) by (intro exec_fresh) (auto simp: enterTimes_Cons[of a as])
  have "plugin s' = plugin s1 \<and> calls s' = calls s1 \<and> inFlight s' = []"
    using e r Cons.prems(3) by (intro Cons.IH) (auto simp: enterTimes_Cons[of a as])
  then show ?case using e by simp
qed

text \<open>Callers that only arrive change nothing but the queue.\<close>

lemma run_arrivals:
  "set as \<subseteq> {Arrive} \<Longrightarrow> run as s = Some s'
   \<Longrightarrow> plugin s' = plugin s \<and> locked s' = locked s \<and> inFlight s' = inFlight s
       \<and> calls s' = calls s"
proof (induction as arbitrary: s)
  case Nil
  then show ?case by simp
next
  case (Cons a as)
  then have a: "a = Arrive" and as: "set as \<subseteq> {Arrive}" by auto
  from Cons.prems(2) a have "run as (s\<lparr>waiting := waiting s + 1\<rparr>) = Some s'"
    by (simp add: exec_def)
  from Cons.IH[OF as this] show ?case by simp
qed

lemma exec_Enter_due:
  assumes "exec (Enter now) s = Some s'"
    and "serialNumber (airthingsConfig (plugin s)) = Some sn"
    and "now - latestSamplesTimestamp (plugin s) > 300 * 1000"
  shows "plugin s' = plugin s \<and> inFlight s' = inFlight s @ [sn]
     \<and> calls s' = calls s @ [Info ''Refreshing latest samples...'', FetchCall sn]"
  using assms by (auto simp: exec_def Let_def split: if_splits)

lemma exec_Settle_resolved:
  assumes "exec (Settle (Inr smp) t) s = Some s'" and "inFlight s = [sn]"
  shows "plugin s' = (plugin s)\<lparr>latestSamples := smp, latestSamplesTimestamp := t\<rparr>
     \<and> inFlight s' = [] \<and> calls s' = calls s @ [InfoData (data smp)]"
  using assms by (auto simp: exec_def resumeRefresh_def catchRefresh_def)

lemma one_resolved_fetch:
  assumes sn: "serialNumber (airthingsConfig q) = Some sn"
    and due: "n1 - latestSamplesTimestamp q > 300 * 1000"
    and pre: "set pre \<subseteq> {Arrive}" and mid: "set mid \<subseteq> {Arrive}"
    and rest: "\<forall>n \<in> set (enterTimes rest). n - t1 \<le> 300 * 1000"
    and run: "run (pre @ [Enter n1] @ mid @ [Settle (Inr smp1) t1] @ rest) (idle q) = Some s3"
  shows "fetchCalls (calls s3) = [sn] \<and> latestSamples (plugin s3) = smp1
     \<and> latestSamplesTimestamp (plugin s3) = t1"
proof -
  from run obtain sa where a: "run pre (idle q) = Some sa"
    and ra: "run ([Enter n1] @ mid @ [Settle (Inr smp1) t1] @ rest) sa = Some s3"
    by (blast dest: run_append_Some)
  from ra obtain sb where b: "run [Enter n1] sa = Some sb"
    and rb: "run (mid @ [Settle (Inr smp1) t1] @ rest) sb = Some s3"
    by (blast dest: run_append_Some)
  from rb obtain sc where c: "run mid sb = Some sc"
    and rc: "run ([Settle (Inr smp1) t1] @ rest) sc = Some s3"
    by (blast dest: run_append_Some)
  from rc obtain sd where d: "run [Settle (Inr smp1) t1] sc = Some sd"
    and rd: "run rest sd = Some s3"
    by (blast dest: run_append_Some)
  have pa: "plugin sa = q \<and> inFlight sa = [] \<and> calls sa = []"
    using run_arrivals[OF pre a] by (simp add: idle_def)
  from b have eb: "exec (Enter n1) sa = Some sb"
    by (simp split: option.splits)
  have pb: "plugin sb = q \<and> inFlight sb = [sn]
      \<and> calls sb = [Info ''Refreshing latest samples...'', FetchCall sn]"
    using exec_Enter_due[OF eb, of sn] pa sn due by simp
  have pc: "plugin sc = q \<and> inFlight sc = [sn]
      \<and> calls sc = [Info ''Refreshing latest samples...'', FetchCall sn]"
    using run_arrivals[OF mid c] pb by simp
  from d have ed: "exec (Settle (Inr smp1) t1) sc = Some sd"
    by (simp split: option.splits)
  have pd: "plugin sd = q\<lparr>latestSamples := smp1, latestSamplesTimestamp := t1\<rparr>
      \<and> inFlight sd = []
      \<and> calls sd = [Info ''Refreshing latest samples...'', FetchCall sn, InfoData (data smp1)]"
    using exec_Settle_resolved[OF ed, of sn] pc by simp
  have i: "inFlight sd = []" using pd by simp
  have w: "\<forall>n \<in> set (enterTimes rest). n - latestSamplesTimestamp (plugin sd) \<le> 300 * 1000"
    using rest pd by simp
  have "plugin s3 = plugin sd \<and> calls s3 = calls sd \<and> inFlight s3 = []"
    by (rule run_fresh[OF i rd w])
  then show ?thesis using pd by (simp add: fetchCalls_def)
qed

text \<open>
  C9 as stated fails: five callers that arrive together after the time to live has
  expired cause five calls of the API, one after the other, when each call rejects,
  because a rejected call leaves the timestamp where it was.
\<close>

theorem five_callers_rejected_counterexample:
  "1301000 - latestSamplesTimestamp examplePlugin > 300 * 1000
   \<and> fetchesOf fiveCallersRejected examplePlugin
       = Some [''2930012345'', ''2930012345'', ''2930012345'', ''2930012345'', ''2930012345'']"
  by (simp add: fetchesOf_def fiveCallersRejected_def examplePlugin_def exec_def idle_def
      resumeRefresh_def catchRefresh_def fetchCalls_def)

text \<open>
  C9, amended. At most one call of the API is ever in flight: while one is, the mutex
  is held and no other caller can make its test, so the test and the fetch are one step
  with respect to the other callers. Callers (five, or any number) that arrive after the
  time to live has expired cause exactly one call of the API within that time to live,
  provided that call resolves. Every step leaves the cached sample and its timestamp as
  they were or replaces both by those of one resolved call, so no caller sees a torn
  state.
\<close>

theorem one_fetch_in_flight:
  "(run as (idle p) = Some s \<longrightarrow>
      length (inFlight s) \<le> 1 \<and> (inFlight s \<noteq> [] \<longrightarrow> locked s \<and> exec (Enter n) s = None))
   \<and> (exec a s1 = Some s2 \<longrightarrow>
        (latestSamples (plugin s2) = latestSamples (plugin s1)
         \<and> latestSamplesTimestamp (plugin s2) = latestSamplesTimestamp (plugin s1))
        \<or> (\<exists>smp t. a = Settle (Inr smp) t
             \<and> latestSamples (plugin s2) = smp \<and> latestSamplesTimestamp (plugin s2) = t))
   \<and> (serialNumber (airthingsConfig q) = Some sn
        \<and> n1 - latestSamplesTimestamp q > 300 * 1000
        \<and> set pre \<subseteq> {Arrive} \<and> set mid \<subseteq> {Arrive}
        \<and> (\<forall>n \<in> set (enterTimes rest). n - t1 \<le> 300 * 1000)
        \<and> run (pre @ [Enter n1] @ mid @ [Settle (Inr smp1) t1] @ rest) (idle q) = Some s3
       \<longrightarrow> fetchCalls (calls s3) = [sn]
           \<and> latestSamples (plugin s3) = smp1 \<and> latestSamplesTimestamp (plugin s3) = t1)"
proof (intro conjI impI)
  assume "run as (idle p) = Some s"
  moreover have "length (inFlight (idle p)) \<le> 1 \<and> (inFlight (idle p) \<noteq> [] \<longrightarrow> locked (idle p))"
    by (simp add: idle_def)
  ultimately have inv: "length (inFlight s) \<le> 1 \<and> (inFlight s \<noteq> [] \<longrightarrow> locked s)"
    by (rule run_oneAtATime[rotated])
  then show "length (inFlight s) \<le> 1" by simp
  assume "inFlight s \<noteq> []"
  with inv show "locked s" by simp
  then show "exec (Enter n) s = None" by (simp add: exec_def)
next
  assume "exec a s1 = Some s2"
  then show "(latestSamples (plugin s2) = latestSamples (plugin s1)
         \<and> latestSamplesTimestamp (plugin s2) = latestSamplesTimestamp (plugin s1))
        \<or> (\<exists>smp t. a = Settle (Inr smp) t
             \<and> latestSamples (plugin s2) = smp \<and> latestSamplesTimestamp (plugin s2) = t)"
    by (rule exec_snapshot)
next
  assume a: "serialNumber (airthingsConfig q) = Some sn
        \<and> n1 - latestSamplesTimestamp q > 300 * 1000
        \<and> set pre \<subseteq> {Arrive} \<and> set mid \<subseteq> {Arrive}
        \<and> (\<forall>n \<in> set (enterTimes rest). n - t1 \<le> 300 * 1000)
        \<and> run (pre @ [Enter n1] @ mid @ [Settle (Inr smp1) t1] @ rest) (idle q) = Some s3"
  have "fetchCalls (calls s3) = [sn] \<and> latestSamples (plugin s3) = smp1
     \<and> latestSamplesTimestamp (plugin s3) = t1"
    by (rule one_resolved_fetch[of q sn n1 pre mid rest t1 smp1 s3]) (use a in blast)+
  then show "fetchCalls (calls s3) = [sn]" and "latestSamples (plugin s3) = smp1"
    and "latestSamplesTimestamp (plugin s3) = t1" by simp_all
qed

theorem one_fetch_in_flight_witness:
  "run (fiveArrivals @ [Enter 1301000]) (idle examplePlugin) = Some fetching
   \<and> inFlight fetching = [''2930012345'']
   \<and> locked fetching \<and> exec (Enter 1301050) fetching = None
   \<and> exec (Settle (Inr freshSample) 1301400) fetching = Some refreshed
   \<and> latestSamples (plugin refreshed) = freshSample
   \<and> latestSamplesTimestamp (plugin refreshed) = 1301400
   \<and> serialNumber (airthingsConfig examplePlugin) = Some ''2930012345''
   \<and> 1301000 - latestSamplesTimestamp examplePlugin > 300 * 1000
   \<and> fiveArrivals = [Arrive, Arrive, Arrive, Arrive, Arrive]
   \<and> enterTimes fourMoreCallers = [1301400, 1301401, 1301402, 1301500]
   \<and> run (fiveArrivals @ [Enter 1301000] @ [] @ [Settle (Inr freshSample) 1301400]
            @ fourMoreCallers) (idle examplePlugin)
       = Some afterFive
   \<and> fetchCalls (calls afterFive) = [''2930012345'']"
proof -
  have 1: "run (fiveArrivals @ [Enter 1301000]) (idle examplePlugin) = Some fetching"
    by (simp add: fiveArrivals_def exec_def idle_def fetching_def examplePlugin_def)
  have 2: "exec (Settle (Inr freshSample) 1301400) fetching = Some refreshed"
    by (simp add: exec_def fetching_def refreshed_def resumeRefresh_def catchRefresh_def)
  have 3: "serialNumber (airthingsConfig examplePlugin) = Some ''2930012345''"
    by (simp add: examplePlugin_def)
  have 4: "1301000 - latestSamplesTimestamp examplePlugin > 300 * 1000"
    by (simp add: examplePlugin_def)
  have 5: "\<forall>n \<in> set (enterTimes fourMoreCallers). n - 1301400 \<le> 300 * 1000"
    by (simp add: fourMoreCallers_def)
  have 6: "run (fiveArrivals @ [Enter 1301000] @ [] @ [Settle (Inr freshSample) 1301400]
            @ fourMoreCallers) (idle examplePlugin)
       = Some afterFive"
    by (simp add: fiveArrivals_def exec_def idle_def afterFive_def refreshed_def
        examplePlugin_def fourMoreCallers_def resumeRefresh_def catchRefresh_def)
  have 7: "inFlight fetching = [''2930012345'']"
    by (simp add: fetching_def)
  have 8: "latestSamples (plugin refreshed) = freshSample
      \<and> latestSamplesTimestamp (plugin refreshed) = 1301400"
    by (simp add: refreshed_def)
  have 9: "enterTimes fourMoreCallers = [1301400, 1301401, 1301402, 1301500]"
    by (simp add: fourMoreCallers_def)
  have 10: "fiveArrivals = [Arrive, Arrive, Arrive, Arrive, Arrive]"
    by (simp add: fiveArrivals_def)
  have 11: "set fiveArrivals \<subseteq> {Arrive} \<and> set ([] :: action list) \<subseteq> {Arrive}"
    by (simp add: fiveArrivals_def)
  have 12: "inFlight fetching \<noteq> []"
    by (simp add: fetching_def)
  show ?thesis
    using one_fetch_in_flight
      [of "fiveArrivals @ [Enter 1301000]" examplePlugin fetching 1301050
          "Settle (Inr freshSample) 1301400" fetching refreshed
          examplePlugin "''2930012345''" 1301000 fiveArrivals "[]" fourMoreCallers 1301400
          freshSample afterFive]
      1 2 3 4 5 6 7 8 9 10 11 12
    by blast
qed

end
